theory Spec2Isabelle
  imports Main "HOL-Library.Sublist" "HOL-Library.AList" "HOL-Library.Word"
    "HOL-Library.Char_ord" "HOL-Library.List_Lexorder"
begin
section \<open>Common Go notions\<close>

text \<open>
  A Go \<open>map[string]V\<close> is represented by the list of its entries in the order in which a
  \<open>range\<close> loop happens to visit them. Go leaves that order unspecified, so every
  statement about a map is made for an arbitrary entry list; a list represents a map when
  its keys are pairwise distinct.
\<close>

type_synonym 'v gomap = "(string \<times> 'v) list"

text \<open>Go's \<open>int\<close> on the 64-bit targets the service is built for; read signed with \<open>sint\<close>.\<close>

type_synonym go_int = "64 word"

text \<open>
  A Go \<open>error\<close> value carries its message; \<open>InfoError\<close> and \<open>CorpusError\<close>
  (package corpus) wrap another error and keep its message.
\<close>

datatype error = Err string | InfoError error | CorpusError error

fun Error :: "error \<Rightarrow> string" where
  "Error (Err m) = m"
| "Error (InfoError e) = Error e"
| "Error (CorpusError e) = Error e"

section \<open>Package jobs: time, job records, the job map\<close>

text \<open>
  Modelled from the spec: \<open>jobs.JSONTime\<close>, \<open>jobs.CurrentDatetime\<close> and
  \<open>jobs.JSONError\<close> are declared outside the sources at hand. A \<open>JSONTime\<close> is an
  instant, counted in nanoseconds from Go's zero time; \<open>Sub\<close> is the elapsed time
  between two instants as \<open>time.Time.Sub\<close> yields it, a \<open>time.Duration\<close> (signed
  64-bit nanoseconds) that saturates at its bounds. The current time is a parameter of
  every operation that reads the clock. A \<open>JSONError\<close> is empty or holds a message.
\<close>

type_synonym JSONTime = int
type_synonym Duration = int
type_synonym JSONError = "string option"

definition maxDuration :: Duration where
  "maxDuration = 2 ^ 63 - 1"

definition minDuration :: Duration where
  "minDuration = - (2 ^ 63)"

definition Hour :: Duration where
  "Hour = 3600 * 1000000000"

definition Sub :: "JSONTime \<Rightarrow> JSONTime \<Rightarrow> Duration" where
  "Sub t u = (let d = t - u in
     if d > maxDuration then maxDuration
     else if d < minDuration then minDuration
     else d)"

definition IsZero :: "JSONTime \<Rightarrow> bool" where
  "IsZero t = (t = 0)"

definition NewJSONError :: "error option \<Rightarrow> JSONError" where
  "NewJSONError e = map_option Error e"

definition IsEmpty :: "JSONError \<Rightarrow> bool" where
  "IsEmpty e = (e = None)"

subsection \<open>The compact job view (jobs.JobInfoCompact)\<close>

record JobInfoCompact =
  jic_ID :: string
  jic_CorpusID :: string
  jic_Type :: string
  jic_Start :: JSONTime
  jic_Update :: JSONTime
  jic_Finished :: bool
  jic_OK :: bool

subsection \<open>Index update jobs (liveattrs/idxjob.go)\<close>

record idxJobInfoArgs =
  MaxColumns :: go_int

record idxJobResult =
  UsedIndexes :: "string list"
  RemovedIndexes :: "string list"

record IdxUpdateJobInfo =
  idx_ID :: string
  idx_Type :: string
  idx_CorpusID :: string
  idx_Start :: JSONTime
  idx_Update :: JSONTime
  idx_Finished :: bool
  idx_Error :: JSONError
  idx_NumRestarts :: go_int
  idx_Args :: idxJobInfoArgs
  idx_Result :: idxJobResult

definition idx_CompactVersion :: "IdxUpdateJobInfo \<Rightarrow> JobInfoCompact" where
  "idx_CompactVersion j =
     (let item = \<lparr> jic_ID = idx_ID j, jic_CorpusID = idx_CorpusID j, jic_Type = idx_Type j,
                   jic_Start = idx_Start j, jic_Update = idx_Update j,
                   jic_Finished = idx_Finished j, jic_OK = True \<rparr>
      in if \<not> IsEmpty (idx_Error j) then item\<lparr> jic_OK := False \<rparr> else item)"

subsection \<open>Corpus synchronization jobs (corpus.JobInfo)\<close>

text \<open>Of the job's \<open>syncResponse\<close> result only the \<open>OK\<close> flag is read.\<close>

record syncResponse =
  sr_OK :: bool

record JobInfo =
  cj_ID :: string
  cj_Type :: string
  cj_CorpusID :: string
  cj_Start :: JSONTime
  cj_Finish :: JSONTime
  cj_Error :: string
  cj_Result :: "syncResponse option"

subsection \<open>Live attributes extraction jobs (liveattrs.LiveAttrsJobInfo)\<close>

text \<open>
  Of the \<open>vert-tagextract\<close> configuration only the fields the service itself reads or
  writes are kept.
\<close>

record VTEConf =
  vte_Corpus :: string
  vte_VerticalFiles :: "string list"
  vte_DBType :: string
  vte_DBName :: string

record jobInfoArgs =
  VteConf :: VTEConf
  Append :: bool

text \<open>
  Modelled from the spec: the declaration of \<open>LiveAttrsJobInfo\<close> and its methods are not
  among the sources; the fields are those \<open>actions.go\<close> assigns, the \<open>finished\<close> flag is
  the one the spec's Job Record has, and the methods follow the index update job.
\<close>

record LiveAttrsJobInfo =
  la_ID :: string
  la_Type :: string
  la_CorpusID :: string
  la_Start :: JSONTime
  la_Update :: JSONTime
  la_Finished :: bool
  la_Error :: JSONError
  la_ProcessedAtoms :: go_int
  la_ProcessedLines :: go_int
  la_NumRestarts :: go_int
  la_Args :: jobInfoArgs

subsection \<open>The GeneralJobInfo interface\<close>

datatype GeneralJobInfo =
    LiveAttrsJob LiveAttrsJobInfo
  | IdxUpdateJob IdxUpdateJobInfo
  | CorpusJob JobInfo

fun GetID :: "GeneralJobInfo \<Rightarrow> string" where
  "GetID (LiveAttrsJob j) = la_ID j"
| "GetID (IdxUpdateJob j) = idx_ID j"
| "GetID (CorpusJob j) = cj_ID j"

fun GetType :: "GeneralJobInfo \<Rightarrow> string" where
  "GetType (LiveAttrsJob j) = la_Type j"
| "GetType (IdxUpdateJob j) = idx_Type j"
| "GetType (CorpusJob j) = cj_Type j"

fun GetStartDT :: "GeneralJobInfo \<Rightarrow> JSONTime" where
  "GetStartDT (LiveAttrsJob j) = la_Start j"
| "GetStartDT (IdxUpdateJob j) = idx_Start j"
| "GetStartDT (CorpusJob j) = cj_Start j"

fun GetCorpus :: "GeneralJobInfo \<Rightarrow> string" where
  "GetCorpus (LiveAttrsJob j) = la_CorpusID j"
| "GetCorpus (IdxUpdateJob j) = idx_CorpusID j"
| "GetCorpus (CorpusJob j) = cj_CorpusID j"

fun IsFinished :: "GeneralJobInfo \<Rightarrow> bool" where
  "IsFinished (LiveAttrsJob j) = la_Finished j"
| "IsFinished (IdxUpdateJob j) = idx_Finished j"
| "IsFinished (CorpusJob j) = (\<not> IsZero (cj_Finish j))"

subsection \<open>Operations on the job map (package jobs)\<close>

text \<open>
  \<open>clearOldJobs\<close>: the loop visits the entries of \<open>data\<close> and deletes the visited key
  from \<open>data\<close> when the job started more than 168 hours before the current time \<open>cur\<close>.
\<close>

fun clearOldJobs_loop ::
  "GeneralJobInfo gomap \<Rightarrow> JSONTime \<Rightarrow> GeneralJobInfo gomap \<Rightarrow> GeneralJobInfo gomap" where
  "clearOldJobs_loop [] cur data = data"
| "clearOldJobs_loop ((k, v) # rest) cur data =
     clearOldJobs_loop rest cur
       (if Sub cur (GetStartDT v) > 168 * Hour then AList.delete k data else data)"

definition clearOldJobs :: "JSONTime \<Rightarrow> GeneralJobInfo gomap \<Rightarrow> GeneralJobInfo gomap" where
  "clearOldJobs cur data = clearOldJobs_loop data cur data"

fun FindUnfinishedJobOfType ::
  "GeneralJobInfo gomap \<Rightarrow> string \<Rightarrow> string \<Rightarrow> GeneralJobInfo option" where
  "FindUnfinishedJobOfType [] corpusID jobType = None"
| "FindUnfinishedJobOfType ((k, v) # rest) corpusID jobType =
     (if GetCorpus v = corpusID \<and> GetType v = jobType \<and> \<not> IsFinished v then Some v
      else FindUnfinishedJobOfType rest corpusID jobType)"

text \<open>
  \<open>FindJob\<close>: \<open>ans\<close> is the loop's variable, \<open>None\<close> for the nil interface value; the
  jobs stored in the map are never nil. \<open>strings.HasPrefix ident jobID\<close> is
  \<open>prefix jobID ident\<close>.
\<close>

fun FindJob_loop ::
  "GeneralJobInfo gomap \<Rightarrow> string \<Rightarrow> GeneralJobInfo option \<Rightarrow> GeneralJobInfo option" where
  "FindJob_loop [] jobID ans = ans"
| "FindJob_loop ((ident, job) # rest) jobID ans =
     (if prefix jobID ident
      then (if ans \<noteq> None then None else FindJob_loop rest jobID (Some job))
      else FindJob_loop rest jobID ans)"

definition FindJob :: "GeneralJobInfo gomap \<Rightarrow> string \<Rightarrow> GeneralJobInfo option" where
  "FindJob syncJobs jobID = FindJob_loop syncJobs jobID None"

subsection \<open>Sample jobs\<close>

text \<open>Concrete jobs on which the theorems below are instantiated.\<close>

definition sampleIdxJob :: "string \<Rightarrow> JSONTime \<Rightarrow> bool \<Rightarrow> GeneralJobInfo" where
  "sampleIdxJob ident start fin = IdxUpdateJob
     \<lparr> idx_ID = ident, idx_Type = ''liveattrs-idx-update'', idx_CorpusID = ''syn2020'',
       idx_Start = start, idx_Update = start, idx_Finished = fin, idx_Error = None,
       idx_NumRestarts = 0, idx_Args = \<lparr> MaxColumns = 3 \<rparr>,
       idx_Result = \<lparr> UsedIndexes = [], RemovedIndexes = [] \<rparr> \<rparr>"

definition sampleJobs :: "GeneralJobInfo gomap" where
  "sampleJobs = [(''ab12'', sampleIdxJob ''ab12'' 0 True),
                 (''ab77'', sampleIdxJob ''ab77'' (100 * Hour) False),
                 (''cd01'', sampleIdxJob ''cd01'' (200 * Hour) True)]"

section \<open>Package corpus: information about the indexed data of a corpus\<close>

record FileMappedValue =
  fmv_Value :: string
  fmv_Path :: string
  fmv_FileExists :: bool
  fmv_LastModified :: "string option"
  fmv_Size :: "64 word"

record Data =
  data_Size :: "64 word"
  data_Path :: FileMappedValue
  data_ManateeError :: "string option"

text \<open>
  The Manatee binding (package mango) and the file system helpers (cnc-gokit/fs) are
  outside the repository; they are parameters. \<open>GetCorpusSize\<close> returns Go's pair of a
  size and an error, since \<open>getCorpusInfo\<close> stores the size before it looks at the
  error. \<open>Clean\<close> is \<open>filepath.Clean\<close>, \<open>FormatTime\<close> is \<open>time.Time.Format\<close> with the
  layout of the source; a modification time is an instant.
\<close>

record 'c CorpusEnv =
  GetCorpusSize :: "'c \<Rightarrow> 64 word \<times> error option"
  GetCorpusConf :: "'c \<Rightarrow> string \<Rightarrow> error + string"
  Clean :: "string \<Rightarrow> string"
  GetFileMtime :: "string \<Rightarrow> error + int"
  FormatTime :: "int \<Rightarrow> string"
  IsDir :: "string \<Rightarrow> error + bool"
  FileSize :: "string \<Rightarrow> error + 64 word"

text \<open>The zero values \<open>new(Data)\<close> starts from.\<close>

definition zeroFileMappedValue :: FileMappedValue where
  "zeroFileMappedValue =
     \<lparr> fmv_Value = [], fmv_Path = [], fmv_FileExists = False, fmv_LastModified = None,
       fmv_Size = 0 \<rparr>"

definition zeroData :: Data where
  "zeroData = \<lparr> data_Size = 0, data_Path = zeroFileMappedValue, data_ManateeError = None \<rparr>"

text \<open>
  \<open>getCorpusInfo\<close> returns Go's pair \<open>(*Data, error)\<close>: \<open>None\<close> in the first component
  is the nil pointer, \<open>None\<close> in the second the nil error.
\<close>

definition getCorpusInfo :: "'c CorpusEnv \<Rightarrow> 'c \<Rightarrow> Data option \<times> error option" where
  "getCorpusInfo E corpus =
     (let ans = zeroData;
          (size, err) = GetCorpusSize E corpus;
          ans = ans\<lparr> data_Size := size \<rparr>
      in case err of
           Some e \<Rightarrow> (Some (ans\<lparr> data_ManateeError := Some (Error e) \<rparr>), None)
         | None \<Rightarrow>
       (case GetCorpusConf E corpus ''PATH'' of
           Inl e \<Rightarrow> (None, Some (InfoError e))
         | Inr corpDataPath \<Rightarrow>
       (let dataDirPath = Clean E corpDataPath
        in case GetFileMtime E dataDirPath of
           Inl e \<Rightarrow> (None, Some (InfoError e))
         | Inr dataDirMtime \<Rightarrow>
       (let dataDirMtimeR = FormatTime E dataDirMtime
        in case IsDir E dataDirPath of
           Inl e \<Rightarrow> (None, Some (InfoError e))
         | Inr isDir \<Rightarrow>
       (case FileSize E dataDirPath of
           Inl e \<Rightarrow> (None, Some (InfoError e))
         | Inr fsize \<Rightarrow>
           (Some (ans\<lparr> data_Path :=
              \<lparr> fmv_Value = dataDirPath, fmv_Path = [], fmv_FileExists = isDir,
                fmv_LastModified = Some dataDirMtimeR, fmv_Size = fsize \<rparr> \<rparr>), None))))))"

text \<open>
  A sample environment: the corpus \<open>''broken''\<close> cannot be sized, the configuration of
  \<open>''noconf''\<close> cannot be read, the data directory of \<open>''nodir''\<close> does not exist, that
  of \<open>''nostat''\<close> cannot be tested and that of \<open>''nosize''\<close> cannot be sized. Its
  \<open>Clean\<close> drops the trailing separator of the sample paths.
\<close>

definition sampleCorpusEnv :: "string CorpusEnv" where
  "sampleCorpusEnv =
     \<lparr> GetCorpusSize = (\<lambda>c. if c = ''broken'' then (0, Some (Err ''FileAccessError'')) else (1200, None)),
       GetCorpusConf = (\<lambda>c k. if c = ''noconf'' then Inl (Err ''no such option'') else Inr (''/data/'' @ c @ ''/'')),
       Clean = butlast,
       GetFileMtime = (\<lambda>p. if p = ''/data/nodir'' then Inl (Err ''no such file'') else Inr 42),
       FormatTime = (\<lambda>t. ''2020-01-01T00:00:00+0000''),
       IsDir = (\<lambda>p. if p = ''/data/nostat'' then Inl (Err ''permission denied'') else Inr True),
       FileSize = (\<lambda>p. if p = ''/data/nosize'' then Inl (Err ''input/output error'') else Inr 4096) \<rparr>"

section \<open>JSON values and HTTP responses\<close>

text \<open>
  What \<open>encoding/json\<close> writes for a Go value: an object is the list of its members in
  the order of the struct's fields.
\<close>

datatype json =
    JNull
  | JBool bool
  | JNum int
  | JStr string
  | JArr "json list"
  | JObj "(string \<times> json) list"

text \<open>
  A handler's answer is a status code with a body: the error payload that
  \<open>api.WriteJSONErrorResponse\<close> writes for a message, or the serialized value passed to
  \<open>api.WriteJSONResponse\<close> / \<open>api.WriteJSONResponseWithStatus\<close>. A handler that panics
  writes nothing itself.
\<close>

datatype 'a body = ErrorPayload string | Payload 'a

datatype 'a response = Response nat "'a body" | Panic string

definition StatusOK :: nat where "StatusOK = 200"
definition StatusCreated :: nat where "StatusCreated = 201"
definition StatusBadRequest :: nat where "StatusBadRequest = 400"
definition StatusUnauthorized :: nat where "StatusUnauthorized = 401"
definition StatusNotFound :: nat where "StatusNotFound = 404"
definition StatusConflict :: nat where "StatusConflict = 409"
definition StatusUnprocessableEntity :: nat where "StatusUnprocessableEntity = 422"
definition StatusInternalServerError :: nat where "StatusInternalServerError = 500"

text \<open>
  \<open>req.URL.Query()\<close> is a \<open>url.Values\<close>, a map from argument names to the list of their
  values; \<open>Get\<close> returns the first value of a name, or the empty string.
\<close>

type_synonym Values = "string list gomap"

definition Get :: "Values \<Rightarrow> string \<Rightarrow> string" where
  "Get vs key = (case map_of vs key of None \<Rightarrow> [] | Some [] \<Rightarrow> [] | Some (v # _) \<Rightarrow> v)"

subsection \<open>strconv.Atoi\<close>

text \<open>
  \<open>strconv.Atoi\<close> in base 10 for the 64-bit \<open>int\<close>: an optional sign, then at least one
  digit and nothing but digits; a value outside the range of \<open>int\<close> is an error.
\<close>

definition isDigit :: "char \<Rightarrow> bool" where
  "isDigit c = (48 \<le> (of_char c :: nat) \<and> (of_char c :: nat) \<le> 57)"

fun decimal :: "nat \<Rightarrow> string \<Rightarrow> nat" where
  "decimal n [] = n"
| "decimal n (c # cs) = decimal (n * 10 + ((of_char c :: nat) - 48)) cs"

definition Atoi :: "string \<Rightarrow> error + go_int" where
  "Atoi s =
     (let neg = (s \<noteq> [] \<and> hd s = CHR ''-'');
          ds = (if s \<noteq> [] \<and> (hd s = CHR ''-'' \<or> hd s = CHR ''+'') then tl s else s)
      in if ds = [] \<or> \<not> list_all isDigit ds
         then Inl (Err (''strconv.Atoi: parsing '' @ s @ '': invalid syntax''))
         else (let v = (if neg then - int (decimal 0 ds) else int (decimal 0 ds))
               in if v < - (2 ^ 63) \<or> 2 ^ 63 - 1 < v
                  then Inl (Err (''strconv.Atoi: parsing '' @ s @ '': value out of range''))
                  else Inr (word_of_int v)))"

subsection \<open>Serialized job records\<close>

text \<open>
  The members follow the \<open>json\<close> tags of \<open>IdxUpdateJobInfo\<close> (liveattrs/idxjob.go) and of
  \<open>JobInfoCompact\<close> (package jobs). How a \<open>JSONTime\<close> and a \<open>JSONError\<close> serialize is
  decided outside the sources: \<open>jt\<close> and \<open>je\<close> are parameters. A nil slice of strings
  serializes as \<open>null\<close>.
\<close>

definition marshalStrings :: "string list \<Rightarrow> json" where
  "marshalStrings xs = (if xs = [] then JNull else JArr (map JStr xs))"

definition marshalIdxUpdateJobInfo ::
  "(JSONTime \<Rightarrow> json) \<Rightarrow> (JSONError \<Rightarrow> json) \<Rightarrow> IdxUpdateJobInfo \<Rightarrow> json" where
  "marshalIdxUpdateJobInfo jt je j = JObj
     [(''id'', JStr (idx_ID j)),
      (''type'', JStr (idx_Type j)),
      (''corpusId'', JStr (idx_CorpusID j)),
      (''start'', jt (idx_Start j)),
      (''update'', jt (idx_Update j)),
      (''finished'', JBool (idx_Finished j)),
      (''error'', je (idx_Error j)),
      (''numRestarts'', JNum (sint (idx_NumRestarts j))),
      (''args'', JObj [(''maxColumns'', JNum (sint (MaxColumns (idx_Args j))))]),
      (''result'', JObj [(''usedIndexes'', marshalStrings (UsedIndexes (idx_Result j))),
                         (''removedIndexed'', marshalStrings (RemovedIndexes (idx_Result j)))])]"

definition marshalJobInfoCompact :: "(JSONTime \<Rightarrow> json) \<Rightarrow> JobInfoCompact \<Rightarrow> json" where
  "marshalJobInfoCompact jt c = JObj
     [(''id'', JStr (jic_ID c)),
      (''corpusId'', JStr (jic_CorpusID c)),
      (''type'', JStr (jic_Type c)),
      (''start'', jt (jic_Start c)),
      (''update'', jt (jic_Update c)),
      (''finished'', JBool (jic_Finished c)),
      (''ok'', JBool (jic_OK c))]"

section \<open>Package liveattrs: the attribute aggregation engine\<close>

subsection \<open>Data\<close>

text \<open>
  The declarations of \<open>response.ListedValue\<close>, \<open>response.QueryAns\<close>, \<open>query.Payload\<close>,
  \<open>qbuilder.ResultRow\<close>, \<open>qbuilder.Builder\<close>, \<open>db.RequestData\<close> and \<open>corpus.DBInfo\<close>
  are outside the sources; the records have the fields that \<open>actions.go\<close> and
  \<open>cncdb.go\<close> read and write. An entry of \<open>QueryAns.AttrValues\<close> has the dynamic type
  \<open>[]*ListedValue\<close> or \<open>int\<close>. The attribute map of a query may be the nil map
  (\<open>None\<close>); its values are decoded JSON.
\<close>

record ListedValue =
  ID :: string
  ShortLabel :: string
  Label :: string
  Count :: go_int
  Grouping :: go_int

datatype AttrValue = ListedValues "ListedValue list" | IntValue go_int

record QueryAns =
  Poscount :: go_int
  AttrValues :: "AttrValue gomap"

type_synonym Attrs = "json gomap option"

record Payload =
  Aligned :: "string list"
  Attrs :: Attrs
  AutocompleteAttr :: string
  MaxAttrListSize :: go_int

record ResultRow =
  row_Poscount :: go_int
  row_Attrs :: "string gomap"

record DBInfo =
  Name :: string
  Active :: go_int
  BibLabelAttr :: string
  BibIDAttr :: string
  BibGroupDuplicates :: go_int
  Locale :: string
  ParallelCorpus :: string
  HasLimitedVariant :: bool

record Builder =
  b_CorpusInfo :: DBInfo
  b_AttrMap :: Attrs
  b_SearchAttrs :: "string list"
  b_AlignedCorpora :: "string list"
  b_AutocompleteAttr :: string
  b_EmptyValPlaceholder :: string

record RequestData =
  rd_CorpusID :: string
  rd_Payload :: Payload

definition jobType :: string where "jobType = ''liveattrs''"
definition emptyValuePlaceholder :: string where "emptyValuePlaceholder = ''?''"
definition dfltMaxAttrListSize :: go_int where "dfltMaxAttrListSize = 30"
definition shortLabelMaxLength :: go_int where "shortLabelMaxLength = 30"

subsection \<open>Loading the corpus information (cncdb.LoadInfo)\<close>

text \<open>
  The row that \<open>row.Scan\<close> reads from the corpora table; a \<open>sql.NullString\<close> is an
  optional string. The query itself is a parameter: it fails, or yields the row.
\<close>

record CorporaRow =
  c_name :: string
  c_active :: go_int
  c_bib_label_struct :: "string option"
  c_bib_label_attr :: "string option"
  c_bib_id_struct :: "string option"
  c_bib_id_attr :: "string option"
  c_bib_group_duplicates :: go_int
  c_locale :: "string option"
  p_name :: "string option"
  rv_variant :: "string option"

definition zeroDBInfo :: DBInfo where
  "zeroDBInfo = \<lparr> Name = [], Active = 0, BibLabelAttr = [], BibIDAttr = [],
     BibGroupDuplicates = 0, Locale = [], ParallelCorpus = [], HasLimitedVariant = False \<rparr>"

definition LoadInfo :: "(string \<Rightarrow> error + CorporaRow) \<Rightarrow> string \<Rightarrow> error + DBInfo" where
  "LoadInfo queryRow corpusID =
     (case queryRow corpusID of
        Inl err \<Rightarrow> Inl err
      | Inr r \<Rightarrow>
         (let ans = zeroDBInfo\<lparr> Name := c_name r, Active := c_active r,
                      BibGroupDuplicates := c_bib_group_duplicates r \<rparr>;
              ans = (case (c_bib_label_struct r, c_bib_label_attr r) of
                       (Some s, Some a) \<Rightarrow> ans\<lparr> BibLabelAttr := s @ ''.'' @ a \<rparr>
                     | _ \<Rightarrow> ans);
              ans = (case (c_bib_id_struct r, c_bib_id_attr r) of
                       (Some s, Some a) \<Rightarrow> ans\<lparr> BibIDAttr := s @ ''.'' @ a \<rparr>
                     | _ \<Rightarrow> ans);
              ans = (case c_locale r of Some l \<Rightarrow> ans\<lparr> Locale := l \<rparr> | None \<Rightarrow> ans);
              ans = (case p_name r of Some p \<Rightarrow> ans\<lparr> ParallelCorpus := p \<rparr> | None \<Rightarrow> ans)
          in Inr (ans\<lparr> HasLimitedVariant := (rv_variant r \<noteq> None) \<rparr>)))"

subsection \<open>Grouping of bibliography items\<close>

text \<open>
  \<open>groupBibItems\<close>: \<open>grouping\<close> maps a label to the entry that stands for it. In the
  branch for a label already present, \<open>val\<close> is that very entry
  (\<open>val, ok := grouping[item.Label]\<close>), so \<open>grouping[item.Label].Count += val.Count\<close>
  adds the entry's count to itself; \<open>item\<close> is not read there. The entries of the list
  are distinct objects, so updating an entry through \<open>grouping\<close> changes no other one.
  The result list has the entries of \<open>grouping\<close> in the order of a map iteration.
\<close>

fun groupBibItems_loop :: "ListedValue list \<Rightarrow> ListedValue gomap \<Rightarrow> ListedValue gomap" where
  "groupBibItems_loop [] grouping = grouping"
| "groupBibItems_loop (item # rest) grouping =
     (let grouping =
            (case map_of grouping (Label item) of
               Some val \<Rightarrow>
                 (let e = val\<lparr> Count := Count val + Count val \<rparr>;
                      e = e\<lparr> Grouping := Grouping e + 1 \<rparr>
                  in AList.update (Label item) e grouping)
             | None \<Rightarrow> AList.update (Label item) item grouping);
          grouping =
            (case map_of grouping (Label item) of
               Some e \<Rightarrow>
                 (if 1 < sint (Grouping e)
                  then AList.update (Label item) (e\<lparr> ID := ''@'' @ Label e \<rparr>) grouping
                  else grouping)
             | None \<Rightarrow> grouping)
      in groupBibItems_loop rest grouping)"

definition groupBibItems :: "QueryAns \<Rightarrow> string \<Rightarrow> QueryAns" where
  "groupBibItems data bibLabel =
     (case map_of (AttrValues data) bibLabel of
        Some (ListedValues tEntry) \<Rightarrow>
          data\<lparr> AttrValues :=
            AList.update bibLabel (ListedValues (map snd (groupBibItems_loop tEntry [])))
              (AttrValues data) \<rparr>
      | _ \<Rightarrow> data)"

subsection \<open>The collaborators of the engine\<close>

text \<open>
  What \<open>getAttrValues\<close> calls outside the sources is a parameter:
  the configuration loader (\<open>laConfCache.Get\<close>, with \<open>cnf.GetSubcorpAttrs\<close> of the loaded
  configuration), the key conversions \<open>db.ImportKey\<close> and \<open>db.ExportKey\<close>, the
  query's \<open>GetListingOf\<close> and \<open>AttrIsRange\<close>, \<open>shortenVal\<close>, the row stream of the
  backing store for a query builder (the rows it yields, and the error the stream itself
  may end with) and \<open>response.ExportAttrValues\<close>.
\<close>

record 'conf EngineEnv =
  laConfCacheGet :: "string \<Rightarrow> error + 'conf"
  GetSubcorpAttrs :: "'conf \<Rightarrow> string list"
  ImportKey :: "string \<Rightarrow> string"
  ExportKey :: "string \<Rightarrow> string"
  GetListingOf :: "Attrs \<Rightarrow> string \<Rightarrow> error + string list"
  AttrIsRange :: "Attrs \<Rightarrow> string \<Rightarrow> bool"
  shortenVal :: "string \<Rightarrow> go_int \<Rightarrow> string"
  rowStream :: "Builder \<Rightarrow> ResultRow list \<times> error option"
  ExportAttrValues ::
    "QueryAns \<Rightarrow> string list \<Rightarrow> string list \<Rightarrow> string \<Rightarrow> go_int \<Rightarrow> QueryAns"

text \<open>
  A \<open>collections.Set\<close> of strings is a set; \<open>ToOrderedSlice\<close> lists its elements in
  increasing order.
\<close>

definition ToOrderedSlice :: "string set \<Rightarrow> string list" where
  "ToOrderedSlice s = sorted_list_of_set s"

text \<open>A function that returns, or panics with a message.\<close>

datatype 'a go_result = Returns 'a | Panics string

text \<open>Reading a \<open>map[string]string\<close>: the empty string for a missing key.\<close>

definition lookupStr :: "string gomap \<Rightarrow> string \<Rightarrow> string" where
  "lookupStr m k = (case map_of m k of None \<Rightarrow> [] | Some v \<Rightarrow> v)"

text \<open>The keys a \<open>range\<close> over the query's attribute map visits.\<close>

definition attrKeys :: "Attrs \<Rightarrow> string list" where
  "attrKeys a = (case a of None \<Rightarrow> [] | Some m \<Rightarrow> map fst m)"

subsection \<open>getAttrValues, part 1: search set, expand set and the autocomplete rewrite\<close>

text \<open>
  The loop that puts the range attributes into the expand set.
\<close>

definition expandRangeAttrs :: "'conf EngineEnv \<Rightarrow> Attrs \<Rightarrow> string set \<Rightarrow> string set" where
  "expandRangeAttrs E attrs expandAttrs =
     fold (\<lambda>attr ex. if AttrIsRange E attrs attr then insert (ImportKey E attr) ex else ex)
       (attrKeys attrs) expandAttrs"

text \<open>
  The statements of \<open>getAttrValues\<close> from \<open>srchAttrs := \<dots>\<close> to the end of the loop
  over the range attributes. The result is an error, or the search set, the expand set
  and the attribute map of the query as the statements leave it: \<open>qry.Attrs\<close> is a map,
  so the assignment to \<open>qry.Attrs[qry.AutocompleteAttr]\<close> is seen by the caller too.
  \<open>acVals[0]\<close> panics for an empty listing, and the assignment panics for the nil map.
\<close>

definition getAttrValues_sets ::
  "'conf EngineEnv \<Rightarrow> DBInfo \<Rightarrow> Payload \<Rightarrow> 'conf \<Rightarrow>
     (error + string set \<times> string set \<times> Attrs) go_result" where
  "getAttrValues_sets E corpusInfo qry laConf =
     (let srchAttrs = set (GetSubcorpAttrs E laConf);
          expandAttrs = {};
          bibLabel = ImportKey E (BibLabelAttr corpusInfo);
          srchAttrs = (if bibLabel \<noteq> [] then insert bibLabel srchAttrs else srchAttrs)
      in if AutocompleteAttr qry \<noteq> []
         then (let a = ImportKey E (AutocompleteAttr qry);
                   srchAttrs = insert a srchAttrs;
                   expandAttrs = insert a expandAttrs
               in case GetListingOf E (Attrs qry) (AutocompleteAttr qry) of
                    Inl err \<Rightarrow> Returns (Inl err)
                  | Inr acVals \<Rightarrow>
                     (case acVals of
                        [] \<Rightarrow> Panics ''index out of range [0] with length 0''
                      | v # _ \<Rightarrow>
                         (case Attrs qry of
                            None \<Rightarrow> Panics ''assignment to entry in nil map''
                          | Some m \<Rightarrow>
                             (let attrs = Some (AList.update (AutocompleteAttr qry)
                                                  (JStr (''%'' @ v @ ''%'')) m)
                              in Returns (Inr (srchAttrs,
                                    expandRangeAttrs E attrs expandAttrs, attrs))))))
         else Returns (Inr (srchAttrs, expandRangeAttrs E (Attrs qry) expandAttrs, Attrs qry)))"

subsection \<open>getAttrValues, part 2: the aggregation of the row stream\<close>

text \<open>
  \<open>tmpAns\<close> maps an attribute to the map from a value identity to its entry.
\<close>

type_synonym TmpAns = "ListedValue gomap gomap"

text \<open>
  The body of the loop over \<open>row.Attrs\<close> in the callback given to \<open>Iterate\<close>. The loop
  ends with an error at the first attribute whose export key has no entry in
  \<open>ans.AttrValues\<close> (the nil interface value, whose \<open>reflect.TypeOf\<close> prints as
  \<open>%!s(<nil>)\<close>); the answer and \<open>tmpAns\<close> stay as they are at that point.
\<close>

fun rowAttrs_loop ::
  "'conf EngineEnv \<Rightarrow> DBInfo \<Rightarrow> string \<Rightarrow> ResultRow \<Rightarrow> (string \<times> string) list \<Rightarrow>
     QueryAns \<Rightarrow> TmpAns \<Rightarrow> QueryAns \<times> TmpAns \<times> error option" where
  "rowAttrs_loop E corpusInfo bibID row [] ans tmpAns = (ans, tmpAns, None)"
| "rowAttrs_loop E corpusInfo bibID row ((dbKey, dbVal) # rest) ans tmpAns =
     (let colKey = ExportKey E dbKey
      in case map_of (AttrValues ans) colKey of
           Some (ListedValues tColVal) \<Rightarrow>
             (let valIdent = (if colKey = BibLabelAttr corpusInfo
                              then lookupStr (row_Attrs row) bibID
                              else lookupStr (row_Attrs row) dbKey);
                  attrVal = \<lparr> ID = valIdent,
                              ShortLabel = shortenVal E dbVal shortLabelMaxLength,
                              Label = dbVal, Count = 0, Grouping = 1 \<rparr>;
                  tmpAns = (case map_of tmpAns colKey of
                              None \<Rightarrow> AList.update colKey [] tmpAns
                            | Some _ \<Rightarrow> tmpAns);
                  inner = (case map_of tmpAns colKey of None \<Rightarrow> [] | Some m \<Rightarrow> m);
                  tmpAns =
                    (case map_of inner (ID attrVal) of
                       Some currAttrVal \<Rightarrow>
                         AList.update colKey
                           (AList.update (ID attrVal)
                              (currAttrVal\<lparr> Count := Count currAttrVal + row_Poscount row \<rparr>)
                              inner) tmpAns
                     | None \<Rightarrow>
                         AList.update colKey
                           (AList.update (ID attrVal)
                              (attrVal\<lparr> Count := row_Poscount row \<rparr>) inner) tmpAns)
              in rowAttrs_loop E corpusInfo bibID row rest ans tmpAns)
         | Some (IntValue tColVal) \<Rightarrow>
             rowAttrs_loop E corpusInfo bibID row rest
               (ans\<lparr> AttrValues :=
                  AList.update colKey (IntValue (tColVal + row_Poscount row)) (AttrValues ans) \<rparr>)
               tmpAns
         | None \<Rightarrow>
             (ans, tmpAns,
              Some (Err (''invalid value type for attr '' @ colKey @
                          '' for data iterator: %!s(<nil>)''))))"

text \<open>The callback: the position count of the row is added before its attributes are read.\<close>

definition rowCallback ::
  "'conf EngineEnv \<Rightarrow> DBInfo \<Rightarrow> string \<Rightarrow> ResultRow \<Rightarrow> QueryAns \<Rightarrow> TmpAns \<Rightarrow>
     QueryAns \<times> TmpAns \<times> error option" where
  "rowCallback E corpusInfo bibID row ans tmpAns =
     rowAttrs_loop E corpusInfo bibID row (row_Attrs row)
       (ans\<lparr> Poscount := Poscount ans + row_Poscount row \<rparr>) tmpAns"

text \<open>
  Modelled from the spec: \<open>DataIterator.Iterate\<close> is outside the sources. It hands the
  rows of the stream to the callback one by one and stops at the first error of the
  callback; when the rows are exhausted it returns the error of the stream, if any.
\<close>

fun Iterate_rows ::
  "'conf EngineEnv \<Rightarrow> DBInfo \<Rightarrow> string \<Rightarrow> ResultRow list \<Rightarrow> QueryAns \<Rightarrow> TmpAns \<Rightarrow>
     QueryAns \<times> TmpAns \<times> error option" where
  "Iterate_rows E corpusInfo bibID [] ans tmpAns = (ans, tmpAns, None)"
| "Iterate_rows E corpusInfo bibID (row # rows) ans tmpAns =
     (case rowCallback E corpusInfo bibID row ans tmpAns of
        (ans, tmpAns, Some err) \<Rightarrow> (ans, tmpAns, Some err)
      | (ans, tmpAns, None) \<Rightarrow> Iterate_rows E corpusInfo bibID rows ans tmpAns)"

definition Iterate ::
  "'conf EngineEnv \<Rightarrow> DBInfo \<Rightarrow> string \<Rightarrow> ResultRow list \<times> error option \<Rightarrow>
     QueryAns \<Rightarrow> TmpAns \<Rightarrow> QueryAns \<times> TmpAns \<times> error option" where
  "Iterate E corpusInfo bibID stream ans tmpAns =
     (case Iterate_rows E corpusInfo bibID (fst stream) ans tmpAns of
        (ans, tmpAns, Some err) \<Rightarrow> (ans, tmpAns, Some err)
      | (ans, tmpAns, None) \<Rightarrow> (ans, tmpAns, snd stream))"

text \<open>
  Modelled from the spec: \<open>QueryAns.AddListedValue\<close> is outside the sources. It appends
  the entry to the value list of the attribute.
\<close>

definition AddListedValue :: "QueryAns \<Rightarrow> string \<Rightarrow> ListedValue \<Rightarrow> QueryAns" where
  "AddListedValue ans attr v =
     (case map_of (AttrValues ans) attr of
        Some (ListedValues xs) \<Rightarrow>
          ans\<lparr> AttrValues := AList.update attr (ListedValues (xs @ [v])) (AttrValues ans) \<rparr>
      | _ \<Rightarrow> ans)"

text \<open>The two nested loops that move the entries of \<open>tmpAns\<close> into the answer.\<close>

definition flattenTmpAns :: "TmpAns \<Rightarrow> QueryAns \<Rightarrow> QueryAns" where
  "flattenTmpAns tmpAns ans =
     fold (\<lambda>(attr, v) ans. fold (\<lambda>(ident, c) ans. AddListedValue ans attr c) v ans) tmpAns ans"

text \<open>
  The statements of \<open>getAttrValues\<close> from the creation of \<open>ans\<close> to the end of the loops
  over \<open>tmpAns\<close>, for the search attributes of the builder and a row stream: the answer
  so far, and the error of the iteration if there is one (then \<open>tmpAns\<close> is not moved).
\<close>

definition getAttrValues_aggregate ::
  "'conf EngineEnv \<Rightarrow> DBInfo \<Rightarrow> string list \<Rightarrow> ResultRow list \<times> error option \<Rightarrow>
     QueryAns \<times> error option" where
  "getAttrValues_aggregate E corpusInfo searchAttrs stream =
     (let ans = \<lparr> Poscount = 0,
                  AttrValues = fold (\<lambda>sattr m. AList.update sattr (ListedValues []) m)
                                 searchAttrs [] \<rparr>;
          tmpAns = [];
          bibID = ImportKey E (BibIDAttr corpusInfo)
      in case Iterate E corpusInfo bibID stream ans tmpAns of
           (ans, tmpAns, Some err) \<Rightarrow> (ans, Some err)
         | (ans, tmpAns, None) \<Rightarrow> (flattenTmpAns tmpAns ans, None))"

subsection \<open>getAttrValues, part 3: grouping and export\<close>

text \<open>The grouping of the bibliography items is done iff the flag of the corpus is positive.\<close>

definition getAttrValues_group :: "DBInfo \<Rightarrow> QueryAns \<Rightarrow> string \<Rightarrow> QueryAns" where
  "getAttrValues_group corpusInfo ans bibLabel =
     (if 0 < sint (BibGroupDuplicates corpusInfo) then groupBibItems ans bibLabel else ans)"

text \<open>
  \<open>getAttrValues\<close> as a whole. It returns Go's pair \<open>(*QueryAns, error)\<close> and, as a third
  component, the attribute map of the query as the call leaves it.
\<close>

definition getAttrValues ::
  "'conf EngineEnv \<Rightarrow> DBInfo \<Rightarrow> Payload \<Rightarrow>
     (QueryAns option \<times> error option \<times> Attrs) go_result" where
  "getAttrValues E corpusInfo qry =
     (case laConfCacheGet E (Name corpusInfo) of
        Inl err \<Rightarrow> Returns (None, Some err, Attrs qry)
      | Inr laConf \<Rightarrow>
       (case getAttrValues_sets E corpusInfo qry laConf of
          Panics msg \<Rightarrow> Panics msg
        | Returns (Inl err) \<Rightarrow> Returns (None, Some err, Attrs qry)
        | Returns (Inr (srchAttrs, expandAttrs, attrs)) \<Rightarrow>
           (let bibLabel = ImportKey E (BibLabelAttr corpusInfo);
                qBuilder = \<lparr> b_CorpusInfo = corpusInfo, b_AttrMap = attrs,
                             b_SearchAttrs = ToOrderedSlice srchAttrs,
                             b_AlignedCorpora = Aligned qry,
                             b_AutocompleteAttr = AutocompleteAttr qry,
                             b_EmptyValPlaceholder = emptyValuePlaceholder \<rparr>
            in case getAttrValues_aggregate E corpusInfo (b_SearchAttrs qBuilder)
                      (rowStream E qBuilder) of
                 (ans, Some err) \<Rightarrow> Returns (Some ans, Some err, attrs)
               | (ans, None) \<Rightarrow>
                  (let ans = getAttrValues_group corpusInfo ans bibLabel;
                       maxAttrListSize = (if MaxAttrListSize qry = 0 then dfltMaxAttrListSize
                                          else MaxAttrListSize qry)
                   in Returns (Some (ExportAttrValues E ans (b_AlignedCorpora qBuilder)
                                  (ToOrderedSlice expandAttrs) (Locale corpusInfo)
                                  maxAttrListSize),
                               None, attrs)))))"

section \<open>Properties of the job map operations\<close>

subsection \<open>Cleanup of old jobs\<close>

lemma Sub_gt_week: "(Sub t u > 168 * Hour) = (t - u > 168 * Hour)"
  by (simp add: Sub_def maxDuration_def minDuration_def Hour_def Let_def)

lemma clearOldJobs_loop_filter:
  "clearOldJobs_loop xs cur data =
     filter (\<lambda>(k, v). \<not> (\<exists>w. (k, w) \<in> set xs \<and> Sub cur (GetStartDT w) > 168 * Hour)) data"
proof (induction xs arbitrary: data)
  case Nil
  then show ?case by simp
next
  case (Cons x xs)
  obtain k v where x: "x = (k, v)" by (cases x)
  show ?case
    unfolding x
    by (auto simp add: Cons.IH AList.delete_eq intro!: filter_cong)
qed

lemma distinct_keys_same_value:
  "distinct (map fst data) \<Longrightarrow> (k, v) \<in> set data \<Longrightarrow> (k, w) \<in> set data \<Longrightarrow> v = w"
  by (meson eq_key_imp_eq_value)

text \<open>
  C6. For every job map (an entry list with distinct keys) and every current time,
  \<open>clearOldJobs\<close> keeps exactly the entries whose start is not more than 168 hours before
  the current time, and removes the others. Whether an entry stays depends on its start
  time only: the finished flag is not read.
\<close>

theorem clearOldJobs_removes_exactly_old:
  assumes "distinct (map fst data)"
  shows "clearOldJobs cur data =
           filter (\<lambda>(k, v). \<not> (cur - GetStartDT v > 168 * Hour)) data"
  unfolding clearOldJobs_def clearOldJobs_loop_filter
  using assms
  by (auto intro!: filter_cong simp add: Sub_gt_week dest: distinct_keys_same_value)

theorem clearOldJobs_removes_exactly_old_witness:
  "distinct (map fst sampleJobs)
   \<and> clearOldJobs (268 * Hour) sampleJobs =
       [(''ab77'', sampleIdxJob ''ab77'' (100 * Hour) False),
        (''cd01'', sampleIdxJob ''cd01'' (200 * Hour) True)]"
proof -
  have d: "distinct (map fst sampleJobs)" by (simp add: sampleJobs_def)
  have "clearOldJobs (268 * Hour) sampleJobs =
          filter (\<lambda>(k, v). \<not> (268 * Hour - GetStartDT v > 168 * Hour)) sampleJobs"
    by (rule clearOldJobs_removes_exactly_old [OF d])
  also have "\<dots> = [(''ab77'', sampleIdxJob ''ab77'' (100 * Hour) False),
                   (''cd01'', sampleIdxJob ''cd01'' (200 * Hour) True)]"
    by (simp add: sampleJobs_def sampleIdxJob_def Hour_def)
  finally show ?thesis using d by simp
qed

subsection \<open>Finding a job by a prefix of its identifier\<close>

lemma FindJob_loop_char:
  "FindJob_loop xs p ans =
     (case ans of
        None \<Rightarrow> (case filter (\<lambda>(ident, job). prefix p ident) xs of
                   [x] \<Rightarrow> Some (snd x) | _ \<Rightarrow> None)
      | Some a \<Rightarrow> (if filter (\<lambda>(ident, job). prefix p ident) xs = [] then Some a else None))"
proof (induction xs arbitrary: ans)
  case Nil
  then show ?case by (simp split: option.splits)
next
  case (Cons x xs)
  obtain k v where x: "x = (k, v)" by (cases x)
  show ?case
    unfolding x
    by (auto simp add: Cons.IH split: option.splits list.splits)
qed

lemma filter_unique_key:
  "distinct (map fst xs) \<Longrightarrow> (k, v) \<in> set xs \<Longrightarrow> P k \<Longrightarrow>
   (\<forall>k' \<in> fst ` set xs. P k' \<longrightarrow> k' = k) \<Longrightarrow>
   filter (\<lambda>(k', w). P k') xs = [(k, v)]"
proof (induction xs)
  case Nil
  then show ?case by simp
next
  case (Cons x xs)
  obtain k0 v0 where x: "x = (k0, v0)" by (cases x)
  show ?case
  proof (cases "k0 = k")
    case True
    from Cons.prems(1) x True have nk: "k \<notin> fst ` set xs" by simp
    with Cons.prems(2) x True have v: "v0 = v" by (force simp: image_iff)
    have "\<not> P k'" if "(k', w) \<in> set xs" for k' w
    proof
      assume "P k'"
      moreover from that have "k' \<in> fst ` set (x # xs)" by force
      ultimately have "k' = k" using Cons.prems(4) by blast
      with that nk show False by force
    qed
    then have "filter (\<lambda>(k', w). P k') xs = []"
      by (auto simp: filter_empty_conv)
    with x True v Cons.prems(3) show ?thesis by simp
  next
    case False
    have "\<not> P k0"
    proof
      assume "P k0"
      moreover have "k0 \<in> fst ` set (x # xs)" using x by simp
      ultimately show False using Cons.prems(4) False by blast
    qed
    moreover have "filter (\<lambda>(k', w). P k') xs = [(k, v)]"
    proof (rule Cons.IH)
      show "distinct (map fst xs)" using Cons.prems(1) by simp
      show "(k, v) \<in> set xs" using Cons.prems(2) x False by auto
      show "P k" by (rule Cons.prems(3))
      show "\<forall>k'\<in>fst ` set xs. P k' \<longrightarrow> k' = k" using Cons.prems(4) by simp
    qed
    ultimately show ?thesis using x by simp
  qed
qed

lemma filter_two_keys:
  assumes "k \<in> fst ` set xs" "k' \<in> fst ` set xs" "k \<noteq> k'" "P k" "P k'"
  shows "\<exists>a b rest. filter (\<lambda>(i, w). P i) xs = a # b # rest"
proof -
  let ?f = "filter (\<lambda>(i, w). P i) xs"
  from assms(1,4) obtain v where v: "(k, v) \<in> set ?f" by auto
  from assms(2,5) obtain v' where v': "(k', v') \<in> set ?f" by auto
  show ?thesis
  proof (cases ?f)
    case Nil
    with v show ?thesis by simp
  next
    case (Cons a as)
    show ?thesis
    proof (cases as)
      case Nil
      with Cons v v' have "(k, v) = a" "(k', v') = a" by simp_all
      with \<open>k \<noteq> k'\<close> show ?thesis by auto
    next
      case (Cons b bs)
      with \<open>?f = a # as\<close> show ?thesis by blast
    qed
  qed
qed

text \<open>
  C7. For every job map (an entry list with distinct keys) and every string \<open>jobID\<close>:
  when exactly one key starts with \<open>jobID\<close>, \<open>FindJob\<close> returns the job stored under
  it; when no key starts with \<open>jobID\<close>, and when two different keys do, it returns
  nothing. The job map is keyed by the job identifiers.
\<close>

theorem FindJob_unique_prefix:
  assumes "distinct (map fst syncJobs)"
  shows "(\<forall>ident job. (ident, job) \<in> set syncJobs \<and> prefix jobID ident \<and>
            (\<forall>ident' \<in> fst ` set syncJobs. prefix jobID ident' \<longrightarrow> ident' = ident)
            \<longrightarrow> FindJob syncJobs jobID = Some job)
       \<and> ((\<forall>ident \<in> fst ` set syncJobs. \<not> prefix jobID ident)
            \<longrightarrow> FindJob syncJobs jobID = None)
       \<and> ((\<exists>ident ident'. ident \<in> fst ` set syncJobs \<and> ident' \<in> fst ` set syncJobs \<and>
              ident \<noteq> ident' \<and> prefix jobID ident \<and> prefix jobID ident')
            \<longrightarrow> FindJob syncJobs jobID = None)"
proof (intro conjI allI impI)
  fix ident job
  assume "(ident, job) \<in> set syncJobs \<and> prefix jobID ident \<and>
            (\<forall>ident' \<in> fst ` set syncJobs. prefix jobID ident' \<longrightarrow> ident' = ident)"
  with assms have "filter (\<lambda>(i, w). prefix jobID i) syncJobs = [(ident, job)]"
    by (intro filter_unique_key) auto
  then show "FindJob syncJobs jobID = Some job"
    by (simp add: FindJob_def FindJob_loop_char)
next
  assume "\<forall>ident \<in> fst ` set syncJobs. \<not> prefix jobID ident"
  then have "filter (\<lambda>(i, w). prefix jobID i) syncJobs = []"
    by (auto simp: filter_empty_conv)
  then show "FindJob syncJobs jobID = None"
    by (simp add: FindJob_def FindJob_loop_char)
next
  assume "\<exists>ident ident'. ident \<in> fst ` set syncJobs \<and> ident' \<in> fst ` set syncJobs \<and>
              ident \<noteq> ident' \<and> prefix jobID ident \<and> prefix jobID ident'"
  then obtain a b rest where "filter (\<lambda>(i, w). prefix jobID i) syncJobs = a # b # rest"
    using filter_two_keys [where P = "prefix jobID" and xs = syncJobs] by blast
  then show "FindJob syncJobs jobID = None"
    by (simp add: FindJob_def FindJob_loop_char)
qed

theorem FindJob_unique_prefix_witness:
  "distinct (map fst sampleJobs)
   \<and> FindJob sampleJobs ''cd'' = Some (sampleIdxJob ''cd01'' (200 * Hour) True)
   \<and> FindJob sampleJobs ''ab'' = None
   \<and> FindJob sampleJobs ''x'' = None"
proof -
  have d: "distinct (map fst sampleJobs)" by (simp add: sampleJobs_def)
  have k: "fst ` set sampleJobs = {''ab12'', ''ab77'', ''cd01''}"
    by (simp add: sampleJobs_def)
  have u: "(''cd01'', sampleIdxJob ''cd01'' (200 * Hour) True) \<in> set sampleJobs \<and>
           prefix ''cd'' ''cd01'' \<and>
           (\<forall>ident' \<in> fst ` set sampleJobs. prefix ''cd'' ident' \<longrightarrow> ident' = ''cd01'')"
    unfolding k by (simp add: sampleJobs_def)
  have n: "\<forall>ident \<in> fst ` set sampleJobs. \<not> prefix ''x'' ident"
    unfolding k by simp
  have e: "\<exists>ident ident'. ident \<in> fst ` set sampleJobs \<and> ident' \<in> fst ` set sampleJobs \<and>
              ident \<noteq> ident' \<and> prefix ''ab'' ident \<and> prefix ''ab'' ident'"
    unfolding k by (rule exI [of _ "''ab12''"], rule exI [of _ "''ab77''"]) simp
  note t = FindJob_unique_prefix [OF d]
  have 1: "FindJob sampleJobs ''cd'' = Some (sampleIdxJob ''cd01'' (200 * Hour) True)"
    using t [of "''cd''", THEN conjunct1, THEN spec, THEN spec, THEN mp, OF u] .
  have 2: "FindJob sampleJobs ''x'' = None"
    using t [of "''x''", THEN conjunct2, THEN conjunct1, THEN mp, OF n] .
  have 3: "FindJob sampleJobs ''ab'' = None"
    using t [of "''ab''", THEN conjunct2, THEN conjunct2, THEN mp, OF e] .
  from d 1 2 3 show ?thesis by blast
qed

section \<open>Properties of the corpus information helper\<close>

text \<open>
  C10. When reading the corpus size fails with an error \<open>e\<close>, \<open>getCorpusInfo\<close> returns a
  \<open>Data\<close> record (all fields zero but the size that came with the failure) whose
  \<open>ManateeError\<close> is the message of \<open>e\<close>, together with a nil error. When the size is read
  and a later read fails with \<open>e\<close> (the \<open>PATH\<close> option; then the modification time, the
  directory test and the size of the cleaned data path, each after the reads before it
  succeeded), it returns a nil result together with \<open>InfoError e\<close>, the error of that very
  read.
\<close>

theorem getCorpusInfo_error_reporting:
  "(\<forall>n e. GetCorpusSize E corpus = (n, Some e) \<longrightarrow>
      getCorpusInfo E corpus =
        (Some (zeroData\<lparr> data_Size := n, data_ManateeError := Some (Error e) \<rparr>), None))
   \<and> (\<forall>n e. GetCorpusSize E corpus = (n, None) \<and> GetCorpusConf E corpus ''PATH'' = Inl e \<longrightarrow>
      getCorpusInfo E corpus = (None, Some (InfoError e)))
   \<and> (\<forall>n p e. GetCorpusSize E corpus = (n, None) \<and> GetCorpusConf E corpus ''PATH'' = Inr p \<and>
         GetFileMtime E (Clean E p) = Inl e \<longrightarrow>
      getCorpusInfo E corpus = (None, Some (InfoError e)))
   \<and> (\<forall>n p t e. GetCorpusSize E corpus = (n, None) \<and> GetCorpusConf E corpus ''PATH'' = Inr p \<and>
         GetFileMtime E (Clean E p) = Inr t \<and> IsDir E (Clean E p) = Inl e \<longrightarrow>
      getCorpusInfo E corpus = (None, Some (InfoError e)))
   \<and> (\<forall>n p t d e. GetCorpusSize E corpus = (n, None) \<and> GetCorpusConf E corpus ''PATH'' = Inr p \<and>
         GetFileMtime E (Clean E p) = Inr t \<and> IsDir E (Clean E p) = Inr d \<and>
         FileSize E (Clean E p) = Inl e \<longrightarrow>
      getCorpusInfo E corpus = (None, Some (InfoError e)))"
  by (simp add: getCorpusInfo_def Let_def)

theorem getCorpusInfo_error_reporting_witness:
  "getCorpusInfo sampleCorpusEnv ''broken'' =
     (Some (zeroData\<lparr> data_Size := 0, data_ManateeError := Some ''FileAccessError'' \<rparr>), None)
   \<and> getCorpusInfo sampleCorpusEnv ''noconf'' = (None, Some (InfoError (Err ''no such option'')))
   \<and> getCorpusInfo sampleCorpusEnv ''nodir'' = (None, Some (InfoError (Err ''no such file'')))
   \<and> getCorpusInfo sampleCorpusEnv ''nostat'' = (None, Some (InfoError (Err ''permission denied'')))
   \<and> getCorpusInfo sampleCorpusEnv ''nosize'' = (None, Some (InfoError (Err ''input/output error'')))"
proof -
  note t = getCorpusInfo_error_reporting [of sampleCorpusEnv]
  have 1: "GetCorpusSize sampleCorpusEnv ''broken'' = (0, Some (Err ''FileAccessError''))"
    by (simp add: sampleCorpusEnv_def)
  have 2: "GetCorpusSize sampleCorpusEnv ''noconf'' = (1200, None) \<and>
           GetCorpusConf sampleCorpusEnv ''noconf'' ''PATH'' = Inl (Err ''no such option'')"
    by (simp add: sampleCorpusEnv_def)
  have 3: "GetCorpusSize sampleCorpusEnv ''nodir'' = (1200, None) \<and>
           GetCorpusConf sampleCorpusEnv ''nodir'' ''PATH'' = Inr ''/data/nodir/'' \<and>
           GetFileMtime sampleCorpusEnv (Clean sampleCorpusEnv ''/data/nodir/'') =
             Inl (Err ''no such file'')"
    by (simp add: sampleCorpusEnv_def)
  have 4: "GetCorpusSize sampleCorpusEnv ''nostat'' = (1200, None) \<and>
           GetCorpusConf sampleCorpusEnv ''nostat'' ''PATH'' = Inr ''/data/nostat/'' \<and>
           GetFileMtime sampleCorpusEnv (Clean sampleCorpusEnv ''/data/nostat/'') = Inr 42 \<and>
           IsDir sampleCorpusEnv (Clean sampleCorpusEnv ''/data/nostat/'') =
             Inl (Err ''permission denied'')"
    by (simp add: sampleCorpusEnv_def)
  have 5: "GetCorpusSize sampleCorpusEnv ''nosize'' = (1200, None) \<and>
           GetCorpusConf sampleCorpusEnv ''nosize'' ''PATH'' = Inr ''/data/nosize/'' \<and>
           GetFileMtime sampleCorpusEnv (Clean sampleCorpusEnv ''/data/nosize/'') = Inr 42 \<and>
           IsDir sampleCorpusEnv (Clean sampleCorpusEnv ''/data/nosize/'') = Inr True \<and>
           FileSize sampleCorpusEnv (Clean sampleCorpusEnv ''/data/nosize/'') =
             Inl (Err ''input/output error'')"
    by (simp add: sampleCorpusEnv_def)
  have a: "getCorpusInfo sampleCorpusEnv ''broken'' =
     (Some (zeroData\<lparr> data_Size := 0, data_ManateeError := Some ''FileAccessError'' \<rparr>), None)"
    using t [of "''broken''", THEN conjunct1, THEN spec, THEN spec, THEN mp, OF 1] by simp
  have b: "getCorpusInfo sampleCorpusEnv ''noconf'' = (None, Some (InfoError (Err ''no such option'')))"
    using t [of "''noconf''", THEN conjunct2, THEN conjunct1, THEN spec, THEN spec, THEN mp, OF 2] .
  have c: "getCorpusInfo sampleCorpusEnv ''nodir'' = (None, Some (InfoError (Err ''no such file'')))"
    using t [of "''nodir''", THEN conjunct2, THEN conjunct2, THEN conjunct1,
             THEN spec, THEN spec, THEN spec, THEN mp, OF 3] .
  have d: "getCorpusInfo sampleCorpusEnv ''nostat'' = (None, Some (InfoError (Err ''permission denied'')))"
    using t [of "''nostat''", THEN conjunct2, THEN conjunct2, THEN conjunct2, THEN conjunct1,
             THEN spec, THEN spec, THEN spec, THEN spec, THEN mp, OF 4] .
  have e: "getCorpusInfo sampleCorpusEnv ''nosize'' = (None, Some (InfoError (Err ''input/output error'')))"
    using t [of "''nosize''", THEN conjunct2, THEN conjunct2, THEN conjunct2, THEN conjunct2,
             THEN spec, THEN spec, THEN spec, THEN spec, THEN spec, THEN mp, OF 5] .
  from a b c d e show ?thesis by blast
qed

end
